theory Spec2Isabelle
  imports Main
begin

section \<open>Patient-detail view: zoom and pan of the scan image\<close>

text \<open>
  Source: the \<open>PatientDetail\<close> component (src/unnamed/part\_003).  The component keeps
  \<open>imageZoomed\<close> (initially false) and \<open>imagePosition\<close> (initially 0) in local
  state.  The positions the code produces are whole numbers, so the JavaScript number is
  modelled as an \<open>int\<close>.
\<close>

record viewer =
  imageZoomed :: bool
  imagePosition :: int

datatype direction = Left | Right

definition viewer_init :: viewer where
  "viewer_init = \<lparr>imageZoomed = False, imagePosition = 0\<rparr>"

text \<open>
  \<^verbatim>\<open>setImagePosition((prev) => {
    const newPosition = direction === "left" ? prev + 50 : prev - 50
    return Math.max(Math.min(newPosition, 0), -200) })\<close>
\<close>

definition handlePan :: "direction \<Rightarrow> viewer \<Rightarrow> viewer" where
  "handlePan d s =
     (let prev = imagePosition s;
          newPosition = (if d = Left then prev + 50 else prev - 50)
      in s\<lparr>imagePosition := max (min newPosition 0) (- 200)\<rparr>)"

text \<open>The zoom button: \<^verbatim>\<open>setImageZoomed(!imageZoomed); setImagePosition(0)\<close>.\<close>

definition toggleZoom :: "viewer \<Rightarrow> viewer" where
  "toggleZoom s = s\<lparr>imageZoomed := \<not> imageZoomed s, imagePosition := 0\<rparr>"

text \<open>
  The \<open>disabled\<close> attributes of the two pan buttons:
  \<^verbatim>\<open>disabled={imagePosition >= 0}\<close> and \<^verbatim>\<open>disabled={imagePosition <= -200}\<close>.
\<close>

definition panLeftDisabled :: "viewer \<Rightarrow> bool" where
  "panLeftDisabled s = (imagePosition s \<ge> 0)"

definition panRightDisabled :: "viewer \<Rightarrow> bool" where
  "panRightDisabled s = (imagePosition s \<le> - 200)"

datatype viewer_op = PanLeft | PanRight | ZoomToggle

text \<open>One invocation of a handler, whatever the state of the buttons.\<close>

fun viewer_apply :: "viewer \<Rightarrow> viewer_op \<Rightarrow> viewer" where
  "viewer_apply s PanLeft = handlePan Left s"
| "viewer_apply s PanRight = handlePan Right s"
| "viewer_apply s ZoomToggle = toggleZoom s"

text \<open>
  One click as the rendered page lets it through: the pan buttons exist only while
  \<open>imageZoomed\<close> holds, and a disabled button fires no \<open>onClick\<close>.
\<close>

fun viewer_click :: "viewer \<Rightarrow> viewer_op \<Rightarrow> viewer" where
  "viewer_click s PanLeft =
     (if imageZoomed s \<and> \<not> panLeftDisabled s then handlePan Left s else s)"
| "viewer_click s PanRight =
     (if imageZoomed s \<and> \<not> panRightDisabled s then handlePan Right s else s)"
| "viewer_click s ZoomToggle = toggleZoom s"

definition viewer_run :: "viewer_op list \<Rightarrow> viewer" where
  "viewer_run ops = foldl viewer_apply viewer_init ops"

definition viewer_clicks :: "viewer_op list \<Rightarrow> viewer" where
  "viewer_clicks ops = foldl viewer_click viewer_init ops"

definition pan_inv :: "viewer \<Rightarrow> bool" where
  "pan_inv s = (- 200 \<le> imagePosition s \<and> imagePosition s \<le> 0)"


section \<open>Browser side: role cookie, login view, dashboard shell\<close>

text \<open>
  What the client components do to the browser is recorded as a list of effects, in the
  order the code performs them.  \<open>SetCookie name value maxAge path\<close> is
  \<^verbatim>\<open>setCookie(name, value, { maxAge, path })\<close> of cookies-next, \<open>RouterPush\<close> is
  \<^verbatim>\<open>router.push\<close>, \<open>ConsoleLog\<close> is \<^verbatim>\<open>console.log\<close>.
\<close>

datatype ui_effect =
    SetCookie string string nat string
  | RouterPush string
  | ConsoleLog string

type_synonym cookies = "string \<rightharpoonup> string"

subsection \<open>Login view (src/app/page.tsx)\<close>

text \<open>\<^verbatim>\<open>export type UserRole = "doctor" | "radiologist"\<close> (types/auth.ts).\<close>

datatype UserRole = Doctor | Radiologist

fun role_name :: "UserRole \<Rightarrow> string" where
  "role_name Doctor = ''doctor''"
| "role_name Radiologist = ''radiologist''"

record login =
  email :: string
  password :: string
  selectedRole :: "UserRole option"
  error :: string

definition login_init :: login where
  "login_init = \<lparr>email = [], password = [], selectedRole = None, error = []\<rparr>"

text \<open>
  \<^verbatim>\<open>if (!selectedRole) { setError("Please select a role"); return }
  if (email && password) {
    setCookie("userRole", selectedRole, { maxAge: 60 * 60 * 24, path: "/" })
    router.push("/dashboard") }\<close>
  A string is truthy when it is not empty.  The result is the component state after the
  handler and the effects it performed.
\<close>

definition handleSubmit :: "login \<Rightarrow> login \<times> ui_effect list" where
  "handleSubmit s =
     (case selectedRole s of
        None \<Rightarrow> (s\<lparr>error := ''Please select a role''\<rparr>, [])
      | Some r \<Rightarrow>
          if email s \<noteq> [] \<and> password s \<noteq> []
          then (s, [SetCookie ''userRole'' (role_name r) (60 * 60 * 24) ''/'',
                    RouterPush ''/dashboard''])
          else (s, []))"

subsection \<open>Sidebar (src/app/dashboard/components/Sidebar.tsx)\<close>

text \<open>A menu item without its icon, which no property below depends on.\<close>

record menu_item =
  label :: string
  href :: string
  roles :: "string list"

definition menuItems :: "menu_item list" where
  "menuItems =
     [\<lparr>label = ''Home'', href = ''/dashboard'', roles = [''doctor'', ''radiologist'']\<rparr>,
      \<lparr>label = ''Recent Uploads'', href = ''/dashboard/recent-uploads'',
        roles = [''doctor'', ''radiologist'']\<rparr>,
      \<lparr>label = ''Upload Images'', href = ''/dashboard/upload'', roles = [''radiologist'']\<rparr>,
      \<lparr>label = ''Book Appointment'', href = ''https://www.practo.com/consult'',
        roles = [''doctor'', ''radiologist'']\<rparr>,
      \<lparr>label = ''Analytics'', href = ''/dashboard/analytics'',
        roles = [''doctor'', ''radiologist'']\<rparr>,
      \<lparr>label = ''Settings'', href = ''/dashboard/settings'',
        roles = [''doctor'', ''radiologist'']\<rparr>]"

text \<open>
  The links the sidebar renders, in order:
  \<^verbatim>\<open>menuItems.filter((item) => item.roles.includes(role)).map(...)\<close>.  The prop is typed
  \<open>"doctor" | "radiologist"\<close>, but the layout passes the cookie's value under a cast, so
  the role is any string here.
\<close>

definition Sidebar :: "string \<Rightarrow> menu_item list" where
  "Sidebar role = filter (\<lambda>item. role \<in> set (roles item)) menuItems"

text \<open>The logout button: \<^verbatim>\<open>onClick={() => console.log("Logout clicked")}\<close>.\<close>

definition logout_onClick :: "ui_effect list" where
  "logout_onClick = [ConsoleLog ''Logout clicked'']"

subsection \<open>Dashboard layout (src/MedAi-Assistant/app/dashboard/layout.tsx)\<close>

text \<open>\<^verbatim>\<open>const [userRole, setUserRole] = useState<UserRole | null>(null)\<close>\<close>

record layout =
  userRole :: "string option"

definition layout_init :: layout where
  "layout_init = \<lparr>userRole = None\<rparr>"

text \<open>
  The effect that runs after the first render:
  \<^verbatim>\<open>const role = getCookie("userRole")
  if (!role) { router.push("/"); return }
  setUserRole(role)\<close>
  An absent cookie is \<open>undefined\<close>; \<open>undefined\<close> and the empty string are falsy.
\<close>

definition layout_effect :: "cookies \<Rightarrow> layout \<Rightarrow> layout \<times> ui_effect list" where
  "layout_effect jar st =
     (case jar ''userRole'' of
        None \<Rightarrow> (st, [RouterPush ''/''])
      | Some role \<Rightarrow>
          if role = [] then (st, [RouterPush ''/''])
          else (st\<lparr>userRole := Some role\<rparr>, []))"

text \<open>
  What the layout renders: \<^verbatim>\<open>if (!userRole) return <div>Loading...</div>\<close>, otherwise the
  role-gated layout, of which the sidebar's links are kept.
\<close>

datatype view = LoadingView | ShellView "menu_item list"

definition layout_render :: "layout \<Rightarrow> view" where
  "layout_render st =
     (case userRole st of
        None \<Rightarrow> LoadingView
      | Some role \<Rightarrow> if role = [] then LoadingView else ShellView (Sidebar role))"

text \<open>
  One load of the dashboard shell: mount with the initial state, run the effect, render
  the state it leaves.
\<close>

definition load_dashboard :: "cookies \<Rightarrow> view \<times> ui_effect list" where
  "load_dashboard jar =
     (case layout_effect jar layout_init of (st, effs) \<Rightarrow> (layout_render st, effs))"

subsection \<open>The shell's state and what effects do to it\<close>

text \<open>
  The state a logout could change: the browser's cookies and the layout's
  \<open>userRole\<close>.  Of the three effects only \<open>setCookie\<close> touches it.
\<close>

record shell =
  cookie_jar :: cookies
  shell_layout :: layout

fun apply_ui_effect :: "shell \<Rightarrow> ui_effect \<Rightarrow> shell" where
  "apply_ui_effect s (SetCookie n v _ _) = s\<lparr>cookie_jar := (cookie_jar s)(n \<mapsto> v)\<rparr>"
| "apply_ui_effect s (RouterPush _) = s"
| "apply_ui_effect s (ConsoleLog _) = s"

definition logout_click :: "shell \<Rightarrow> shell" where
  "logout_click s = foldl apply_ui_effect s logout_onClick"

definition authenticated_as :: "shell \<Rightarrow> string option" where
  "authenticated_as s = userRole (shell_layout s)"

text \<open>Concrete inputs used to evaluate the definitions.\<close>

definition doctor_jar :: cookies where
  "doctor_jar = [''userRole'' \<mapsto> ''doctor'']"

definition radiologist_jar :: cookies where
  "radiologist_jar = [''userRole'' \<mapsto> ''radiologist'']"

definition filled_login :: login where
  "filled_login = \<lparr>email = ''a@b.c'', password = ''x'', selectedRole = Some Radiologist,
     error = []\<rparr>"


section \<open>Server side: the two relay endpoints\<close>

subsection \<open>Values, requests, responses\<close>

text \<open>
  A multipart field is a string or a file (\<open>FormDataEntryValue\<close>); \<open>formData.get\<close>
  gives \<open>null\<close> for an absent name.  The handlers cast what they get
  (\<^verbatim>\<open>as File\<close>, \<^verbatim>\<open>as string\<close>) without checking it, so the model keeps the three cases.
\<close>

type_synonym bytes = "char list"

datatype jsval =
    JNull
  | JStr string
  | JFile (file_name: string) (file_bytes: bytes)

type_synonym form = "(string \<times> jsval) list"

text \<open>\<open>formData.get(name)\<close>: the first entry of that name, or \<open>null\<close>.\<close>

definition form_get :: "form \<Rightarrow> string \<Rightarrow> jsval" where
  "form_get fd k = (case map_of fd k of None \<Rightarrow> JNull | Some v \<Rightarrow> v)"

text \<open>JavaScript truthiness: \<open>null\<close> and the empty string are falsy, every object is truthy.\<close>

fun truthy :: "jsval \<Rightarrow> bool" where
  "truthy JNull = False"
| "truthy (JStr s) = (s \<noteq> [])"
| "truthy (JFile _ _) = True"

text \<open>String conversion inside a template literal.\<close>

fun to_str :: "jsval \<Rightarrow> string" where
  "to_str JNull = ''null''"
| "to_str (JStr s) = s"
| "to_str (JFile _ _) = ''[object File]''"

text \<open>
  The decimal digits of \<open>Date.now()\<close>, a non-negative whole number of milliseconds.
  \<open>digit\<close> is only ever applied to a number below 10.
\<close>

definition digit :: "nat \<Rightarrow> char" where
  "digit d = ''0123456789'' ! d"

function show_nat :: "nat \<Rightarrow> string" where
  "show_nat n = (if n < 10 then [digit n] else show_nat (n div 10) @ [digit (n mod 10)])"
  by pat_completeness auto
termination
  by (relation "measure (\<lambda>n. n)") auto

declare show_nat.simps [simp del]

text \<open>
  A request is its parsed multipart body; \<open>None\<close> when \<open>req.formData()\<close> rejects (the
  body is not a form).
\<close>

record request =
  formData :: "form option"

text \<open>
  A response body is the object handed to \<open>JSON.stringify\<close>: its keys, in order, with
  their values.  \<open>'j\<close> is the type of parsed JSON documents, which the handlers pass on
  without looking inside.
\<close>

datatype 'j jfield = VBool bool | VStr string | VDoc 'j

record 'j response =
  status :: nat
  body :: "(string \<times> 'j jfield) list"

subsection \<open>The world outside the handlers\<close>

text \<open>
  How a spawned \<open>python\<close> behaves, as the handler sees it: \<open>spawn\<close> throws; or the
  \<open>close\<close> event arrives with an exit code (\<open>null\<close> when a signal killed the process),
  after everything written to standard output and standard error has been delivered; or
  \<open>close\<close> never arrives.  In \<open>Closed code chunks err\<close>, \<open>chunks\<close> are the buffers the
  \<open>data\<close> events of standard output carried, in order: where the stream is cut into
  buffers is the world's choice, and a cut can fall inside a multi-byte character.
  \<open>err\<close> is the text the \<open>data\<close> listener of standard error has put together by then;
  the handlers only test it for emptiness.  The handlers hand form values to \<open>spawn\<close>
  unchecked, so an argument can be \<open>null\<close> or a file object; what becomes of such a call
  is part of the outcome, which depends on the whole argument list.
\<close>

datatype proc_outcome =
    SpawnThrows
  | Closed "int option" "bytes list" string
  | NoClose

text \<open>
  \<open>mkdir\<close> and \<open>writeFile\<close> answer \<open>None\<close> on success and the error's \<open>code\<close> on
  failure.  \<open>path_join\<close> is Node's \<open>path.join\<close> of a directory and a relative path,
  which glues the two with a separator and normalises the result (\<open>..\<close>, doubled
  separators).  \<open>toString\<close> is \<open>Buffer.prototype.toString()\<close>, the UTF-8 decoding of
  one buffer on its own.  \<open>json_parse\<close> is \<open>JSON.parse\<close>: \<open>None\<close> when it throws.
  The handlers are verified for every such world, whatever these functions compute.
\<close>

record 'j env =
  cwd :: string
  now :: nat
  mkdir :: "string \<Rightarrow> string option"
  writeFile :: "string \<Rightarrow> bytes \<Rightarrow> string option"
  python :: "jsval list \<Rightarrow> proc_outcome"
  path_join :: "string \<Rightarrow> string \<Rightarrow> string"
  toString :: "bytes \<Rightarrow> string"
  json_parse :: "string \<Rightarrow> 'j option"

text \<open>
  What the \<open>data\<close> listener of standard output leaves in \<open>result\<close>:
  \<^verbatim>\<open>let result = ''
  pythonProcess.stdout.on('data', (data) => { result += data.toString() })\<close>
  Each buffer is decoded by itself and the pieces are appended.
\<close>

definition collect :: "'j env \<Rightarrow> bytes list \<Rightarrow> string" where
  "collect e chunks = foldl (\<lambda>result data. result @ toString e data) [] chunks"

text \<open>
  What a handler did to the machine, in order: each \<open>mkdir\<close> and \<open>writeFile\<close> it
  called (failed or not), each process it started, each \<open>console.error\<close>.
\<close>

datatype effect =
    Mkdir string
  | WriteFile string bytes
  | Spawn "jsval list"
  | ConsoleError string

text \<open>
  How the \<open>try\<close> block of a handler ends: it returns a response, it throws, or it waits
  for ever on the promise of the \<open>close\<close> event.
\<close>

datatype exn =
    FormDataError
  | FsError string
  | TypeError
  | SpawnError
  | ProcessExited "int option"
  | StderrOutput string
  | SyntaxError

datatype 'a completion = Return 'a | Throw exn | Pending

text \<open>
  \<open>try { ... } catch (error) { console.error(tag, error); return failure }\<close>.
  A handler's result is its response (\<open>None\<close>: the request hangs) and its effects.
\<close>

definition failure :: "string \<Rightarrow> 'j response" where
  "failure msg = \<lparr>status = 500, body = [(''success'', VBool False), (''error'', VStr msg)]\<rparr>"

fun catch :: "string \<Rightarrow> string \<Rightarrow> 'j response completion \<times> effect list
    \<Rightarrow> 'j response option \<times> effect list" where
  "catch tag msg (Return r, effs) = (Some r, effs)"
| "catch tag msg (Throw x, effs) = (Some (failure msg), effs @ [ConsoleError tag])"
| "catch tag msg (Pending, effs) = (None, effs)"

subsection \<open>Inference endpoint (the route in src/MedAi-Assistant/types/auth.ts)\<close>

text \<open>\<^verbatim>\<open>`${patientId}_${Date.now()}_${image.name}`\<close>\<close>

definition fileName :: "jsval \<Rightarrow> nat \<Rightarrow> string \<Rightarrow> string" where
  "fileName patientId t image_name = to_str patientId @ ''_'' @ show_nat t @ ''_'' @ image_name"

definition missing_fields :: "'j response" where
  "missing_fields =
     \<lparr>status = 400, body = [(''success'', VBool False),
                            (''error'', VStr ''Missing required fields'')]\<rparr>"

text \<open>
  The part of the \<open>try\<close> block from \<open>spawn\<close> on, the same in both \<open>POST\<close> handlers: collect
  standard output and standard error, wait for \<open>close\<close>, reject on an exit code other
  than 0, throw when standard error was not empty, parse standard output.  \<open>sofar\<close> are the
  effects before the spawn, \<open>wrap\<close> builds the success body.
\<close>

definition spawn_and_relay :: "'j env \<Rightarrow> jsval list \<Rightarrow> effect list
    \<Rightarrow> ('j \<Rightarrow> 'j response) \<Rightarrow> 'j response completion \<times> effect list" where
  "spawn_and_relay e args sofar wrap =
     (case python e args of
        SpawnThrows \<Rightarrow> (Throw SpawnError, sofar)
      | NoClose \<Rightarrow> (Pending, sofar @ [Spawn args])
      | Closed code chunks err \<Rightarrow>
          if code \<noteq> Some 0 then (Throw (ProcessExited code), sofar @ [Spawn args])
          else if err \<noteq> [] then (Throw (StderrOutput err), sofar @ [Spawn args])
          else (case json_parse e (collect e chunks) of
                  None \<Rightarrow> (Throw SyntaxError, sofar @ [Spawn args])
                | Some doc \<Rightarrow> (Return (wrap doc), sofar @ [Spawn args])))"

definition infer_try :: "'j env \<Rightarrow> request \<Rightarrow> 'j response completion \<times> effect list" where
  "infer_try e req =
     (case formData req of
        None \<Rightarrow> (Throw FormDataError, [])
      | Some fd \<Rightarrow>
          let image = form_get fd ''image'';
              imageType = form_get fd ''type'';
              patientName = form_get fd ''patientName'';
              patientId = form_get fd ''patientId''
          in if \<not> truthy image \<or> \<not> truthy imageType then (Return missing_fields, [])
             else
               let uploadsDir = path_join e (cwd e) ''uploads'' in
               (case mkdir e uploadsDir of
                  Some c \<Rightarrow> (Throw (FsError c), [Mkdir uploadsDir])
                | None \<Rightarrow>
                    (case image of
                       JFile image_name buffer \<Rightarrow>
                         let fname = fileName patientId (now e) image_name;
                             imagePath = path_join e uploadsDir fname;
                             sofar = [Mkdir uploadsDir, WriteFile imagePath buffer]
                         in (case writeFile e imagePath buffer of
                               Some c \<Rightarrow> (Throw (FsError c), sofar)
                             | None \<Rightarrow>
                                 spawn_and_relay e
                                   [JStr (path_join e (cwd e) ''fl-backend/server/inference.py''),
                                    JStr ''--image_path'', JStr imagePath,
                                    JStr ''--image_type'', imageType,
                                    JStr ''--patient_id'', patientId,
                                    JStr ''--patient_name'', patientName]
                                   sofar
                                   (\<lambda>analysis.
                                      \<lparr>status = 200,
                                       body = [(''success'', VBool True),
                                               (''result'', VDoc analysis),
                                               (''imagePath'', VStr fname)]\<rparr>))
                     | _ \<Rightarrow> (Throw TypeError, [Mkdir uploadsDir]))))"

definition POST_infer :: "'j env \<Rightarrow> request \<Rightarrow> 'j response option \<times> effect list" where
  "POST_infer e req = catch ''Inference error:'' ''Inference failed'' (infer_try e req)"

subsection \<open>Training endpoint (src/MedAi-Assistant/api/train/route.ts)\<close>

text \<open>
  \<open>GET\<close> attaches no listener to standard error: only the exit code and standard output
  count.
\<close>

definition GET_try :: "'j env \<Rightarrow> 'j response completion \<times> effect list" where
  "GET_try e =
     (let args = [JStr (path_join e (cwd e) ''fl-backend/server/cli.py''),
                  JStr ''--mode'', JStr ''status'']
      in case python e args of
           SpawnThrows \<Rightarrow> (Throw SpawnError, [])
         | NoClose \<Rightarrow> (Pending, [Spawn args])
         | Closed code chunks err \<Rightarrow>
             if code \<noteq> Some 0 then (Throw (ProcessExited code), [Spawn args])
             else (case json_parse e (collect e chunks) of
                     None \<Rightarrow> (Throw SyntaxError, [Spawn args])
                   | Some doc \<Rightarrow>
                       (Return \<lparr>status = 200,
                                body = [(''success'', VBool True), (''status'', VDoc doc)]\<rparr>,
                        [Spawn args])))"

definition GET_train :: "'j env \<Rightarrow> 'j response option \<times> effect list" where
  "GET_train e =
     catch ''Error getting training status:'' ''Failed to get training status'' (GET_try e)"

text \<open>
  \<open>createTempDir\<close>: \<open>mkdir\<close> with \<open>recursive: true\<close>; an error is swallowed when its
  code is \<open>EEXIST\<close> and thrown again otherwise.  The result is the error it throws, \<open>None\<close> when it returns
  normally.
\<close>

definition createTempDir :: "'j env \<Rightarrow> string \<Rightarrow> exn option" where
  "createTempDir e dirPath =
     (case mkdir e dirPath of
        None \<Rightarrow> None
      | Some c \<Rightarrow> if c \<noteq> ''EEXIST'' then Some (FsError c) else None)"

definition train_ok :: "'j \<Rightarrow> 'j response" where
  "train_ok doc = \<lparr>status = 200, body = [(''success'', VBool True), (''result'', VDoc doc)]\<rparr>"

definition POST_try :: "'j env \<Rightarrow> request \<Rightarrow> 'j response completion \<times> effect list" where
  "POST_try e req =
     (case formData req of
        None \<Rightarrow> (Throw FormDataError, [])
      | Some fd \<Rightarrow>
          let action = form_get fd ''action'';
              clientId = form_get fd ''clientId'';
              modelUpdate = form_get fd ''modelUpdate'';
              tempDir = path_join e (cwd e) ''temp''
          in (case createTempDir e tempDir of
                Some x \<Rightarrow> (Throw x, [Mkdir tempDir])
              | None \<Rightarrow>
                  let args = [JStr (path_join e (cwd e) ''fl-backend/server/cli.py''),
                              JStr ''--mode'', action,
                              JStr ''--client_id'', clientId]
                  in if truthy modelUpdate
                     then
                       let updatePath = path_join e tempDir
                             (''update_'' @ to_str clientId @ ''_'' @ show_nat (now e) @ ''.pt'')
                       in (case modelUpdate of
                             JFile _ buffer \<Rightarrow>
                               (case writeFile e updatePath buffer of
                                  Some c \<Rightarrow>
                                    (Throw (FsError c),
                                     [Mkdir tempDir, WriteFile updatePath buffer])
                                | None \<Rightarrow>
                                    spawn_and_relay e
                                      (args @ [JStr ''--update_path'', JStr updatePath])
                                      [Mkdir tempDir, WriteFile updatePath buffer] train_ok)
                           | _ \<Rightarrow> (Throw TypeError, [Mkdir tempDir]))
                     else spawn_and_relay e args [Mkdir tempDir] train_ok))"

definition POST_train :: "'j env \<Rightarrow> request \<Rightarrow> 'j response option \<times> effect list" where
  "POST_train e req = catch ''Training error:'' ''Training operation failed'' (POST_try e req)"


subsection \<open>Concrete worlds and requests\<close>

text \<open>
  In the concrete worlds a JavaScript string that is not plain ASCII is written as its
  UTF-8 bytes, so the replacement character U+FFFD is the three bytes EF BF BD.

  A stand-in for \<open>Buffer.prototype.toString()\<close> that knows one-byte and two-byte
  sequences: an ASCII byte and a lead byte C2..DF followed by a continuation byte 80..BF
  are kept, any other byte becomes the replacement character.
\<close>

definition replacement :: string where
  "replacement = [CHR 0xEF, CHR 0xBF, CHR 0xBD]"

fun utf8_toString :: "bytes \<Rightarrow> string" where
  "utf8_toString [] = []"
| "utf8_toString [b] = (if (of_char b :: nat) < 0x80 then [b] else replacement)"
| "utf8_toString (b # c # bs) =
     (if (of_char b :: nat) < 0x80 then b # utf8_toString (c # bs)
      else if 0xC2 \<le> (of_char b :: nat) \<and> (of_char b :: nat) \<le> 0xDF
              \<and> 0x80 \<le> (of_char c :: nat) \<and> (of_char c :: nat) \<le> 0xBF
           then b # c # utf8_toString bs
           else replacement @ utf8_toString (c # bs))"

text \<open>
  A stand-in for \<open>JSON.parse\<close> that knows the documents used below: \<open>{}\<close>, \<open>[]\<close> and a
  string in double quotes (22) without a quote or a backslash (5C) inside.  The parsed
  document is represented by its text.
\<close>

definition is_plain_string :: "string \<Rightarrow> bool" where
  "is_plain_string s =
     (2 \<le> length s \<and> hd s = CHR 0x22 \<and> last s = CHR 0x22
      \<and> CHR 0x22 \<notin> set (butlast (tl s)) \<and> CHR 0x5C \<notin> set s)"

definition tiny_parse :: "string \<Rightarrow> string option" where
  "tiny_parse s = (if s = ''{}'' \<or> s = ''[]'' \<or> is_plain_string s then Some s else None)"

text \<open>
  A process that prints \<open>{}\<close>, delivered in two buffers, and exits 0, unless an argument
  is \<open>null\<close>: then it prints a usage message to standard error and exits 2.
\<close>

definition quiet_python :: "jsval list \<Rightarrow> proc_outcome" where
  "quiet_python args =
     (if JNull \<in> set args then Closed (Some 2) [] ''usage: cli.py'' else Closed (Some 0) [''{'', ''}''] [])"

text \<open>A process that prints \<open>{}\<close>, writes a warning to standard error and exits 0.\<close>

definition noisy_python :: "jsval list \<Rightarrow> proc_outcome" where
  "noisy_python args = Closed (Some 0) [''{}''] ''DeprecationWarning''"


text \<open>A process that exits 1 without output.\<close>

definition failing_python :: "jsval list \<Rightarrow> proc_outcome" where
  "failing_python args = Closed (Some 1) [] []"

text \<open>
  A stand-in for \<open>path.join\<close>: the two parts with a separator between them.  It agrees
  with \<open>path.join\<close> on the paths of the concrete worlds, which have no empty segment,
  no \<open>.\<close> and no \<open>..\<close>.
\<close>

definition plain_join :: "string \<Rightarrow> string \<Rightarrow> string" where
  "plain_join dir seg = dir @ ''/'' @ seg"

definition world :: "(jsval list \<Rightarrow> proc_outcome) \<Rightarrow> string env" where
  "world py = \<lparr>cwd = ''/app'', now = 1700000000000, mkdir = (\<lambda>_. None),
     writeFile = (\<lambda>_ _. None), python = py, path_join = plain_join,
     toString = utf8_toString,
     json_parse = tiny_parse\<rparr>"

definition scan_request :: request where
  "scan_request = \<lparr>formData = Some [(''image'', JFile ''scan.dcm'' ''DICM''),
     (''type'', JStr ''ct''), (''patientName'', JStr ''Ann''), (''patientId'', JStr ''42'')]\<rparr>"

definition no_type_request :: request where
  "no_type_request = \<lparr>formData = Some [(''image'', JFile ''scan.dcm'' ''DICM''),
     (''patientId'', JStr ''42'')]\<rparr>"

definition no_action_request :: request where
  "no_action_request = \<lparr>formData = Some [(''clientId'', JStr ''c1''),
     (''modelUpdate'', JFile ''update.pt'' ''w'')]\<rparr>"

definition start_round_request :: request where
  "start_round_request = \<lparr>formData = Some [(''action'', JStr ''start_round''),
     (''clientId'', JStr ''c1'')]\<rparr>"


section \<open>Properties of the pan logic\<close>

lemma pan_inv_init: "pan_inv viewer_init"
  by (simp add: pan_inv_def viewer_init_def)

lemma pan_inv_apply: "pan_inv (viewer_apply s ev)"
  by (cases ev) (simp_all add: pan_inv_def handlePan_def toggleZoom_def Let_def)

lemma pan_inv_click: "pan_inv s \<Longrightarrow> pan_inv (viewer_click s ev)"
  by (cases ev) (simp_all add: pan_inv_def handlePan_def toggleZoom_def Let_def)

lemma pan_inv_foldl_apply: "pan_inv s \<Longrightarrow> pan_inv (foldl viewer_apply s evs)"
  by (induction evs arbitrary: s) (simp_all add: pan_inv_apply)

lemma pan_inv_foldl_click: "pan_inv s \<Longrightarrow> pan_inv (foldl viewer_click s evs)"
  by (induction evs arbitrary: s) (simp_all add: pan_inv_click)

lemma pan_inv_disabled:
  assumes "pan_inv s"
  shows "panLeftDisabled s = (imagePosition s = 0)"
    and "panRightDisabled s = (imagePosition s = - 200)"
  using assms by (auto simp: pan_inv_def panLeftDisabled_def panRightDisabled_def)

text \<open>
  C10.  The image position starts at 0.  After any sequence of pan-left, pan-right and
  zoom-toggle operations, whether every handler invocation is counted
  (\<open>viewer_run\<close>) or only the clicks the rendered buttons let through
  (\<open>viewer_clicks\<close>), the position lies in the closed interval from -200 to 0; in every
  such state the pan-left button is disabled exactly at position 0 and the pan-right
  button exactly at position -200.
\<close>

theorem pan_position_bounded:
  "imagePosition viewer_init = 0
   \<and> - 200 \<le> imagePosition (viewer_run ops) \<and> imagePosition (viewer_run ops) \<le> 0
   \<and> - 200 \<le> imagePosition (viewer_clicks ops) \<and> imagePosition (viewer_clicks ops) \<le> 0
   \<and> panLeftDisabled (viewer_run ops) = (imagePosition (viewer_run ops) = 0)
   \<and> panRightDisabled (viewer_run ops) = (imagePosition (viewer_run ops) = - 200)
   \<and> panLeftDisabled (viewer_clicks ops) = (imagePosition (viewer_clicks ops) = 0)
   \<and> panRightDisabled (viewer_clicks ops) = (imagePosition (viewer_clicks ops) = - 200)"
proof -
  have r: "pan_inv (viewer_run ops)"
    unfolding viewer_run_def by (rule pan_inv_foldl_apply [OF pan_inv_init])
  have c: "pan_inv (viewer_clicks ops)"
    unfolding viewer_clicks_def by (rule pan_inv_foldl_click [OF pan_inv_init])
  have i: "imagePosition viewer_init = 0"
    by (simp add: viewer_init_def)
  from r c have b: "- 200 \<le> imagePosition (viewer_run ops)" "imagePosition (viewer_run ops) \<le> 0"
    "- 200 \<le> imagePosition (viewer_clicks ops)" "imagePosition (viewer_clicks ops) \<le> 0"
    by (simp_all add: pan_inv_def)
  show ?thesis
    using i b pan_inv_disabled [OF r] pan_inv_disabled [OF c] by simp
qed


section \<open>Properties of the login view and the dashboard shell\<close>

lemma Sidebar_set:
  "set (Sidebar role) = {item \<in> set menuItems. role \<in> set (roles item)}"
  by (simp add: Sidebar_def)

lemma Sidebar_doctor_labels:
  "map label (Sidebar ''doctor'') =
     [''Home'', ''Recent Uploads'', ''Book Appointment'', ''Analytics'', ''Settings'']"
  by (simp add: Sidebar_def menuItems_def)

lemma Sidebar_radiologist_labels:
  "map label (Sidebar ''radiologist'') =
     [''Home'', ''Recent Uploads'', ''Upload Images'', ''Book Appointment'', ''Analytics'',
      ''Settings'']"
  by (simp add: Sidebar_def menuItems_def)

lemma load_dashboard_role:
  "jar ''userRole'' = Some role \<Longrightarrow> role \<noteq> [] \<Longrightarrow>
     load_dashboard jar = (ShellView (Sidebar role), [])"
  by (simp add: load_dashboard_def layout_effect_def layout_render_def layout_init_def)

text \<open>
  C6.  A load of the dashboard shell with the role cookie set to "doctor" renders a
  sidebar without the "Upload Images" item; with the cookie set to "radiologist" the
  sidebar has it.  In general, for a role cookie with a non-empty value, the shell
  renders the sidebar, and the sidebar holds exactly the menu items whose allow-list
  contains that value, in the order of the menu.
\<close>

theorem sidebar_role_filter:
  "(jar ''userRole'' = Some ''doctor'' \<longrightarrow>
      (\<exists>items. load_dashboard jar = (ShellView items, [])
         \<and> ''Upload Images'' \<notin> set (map label items)))
   \<and> (jar ''userRole'' = Some ''radiologist'' \<longrightarrow>
      (\<exists>items. load_dashboard jar = (ShellView items, [])
         \<and> ''Upload Images'' \<in> set (map label items)))
   \<and> (jar ''userRole'' = Some role \<and> role \<noteq> [] \<longrightarrow>
      load_dashboard jar = (ShellView (Sidebar role), [])
      \<and> Sidebar role = filter (\<lambda>item. role \<in> set (roles item)) menuItems
      \<and> (\<forall>item. item \<in> set (Sidebar role)
            \<longleftrightarrow> item \<in> set menuItems \<and> role \<in> set (roles item)))"
proof (intro conjI impI)
  assume d: "jar ''userRole'' = Some ''doctor''"
  have "load_dashboard jar = (ShellView (Sidebar ''doctor''), [])"
    using d by (simp add: load_dashboard_role)
  moreover have "''Upload Images'' \<notin> set (map label (Sidebar ''doctor''))"
    by (simp add: Sidebar_doctor_labels)
  ultimately show "\<exists>items. load_dashboard jar = (ShellView items, [])
      \<and> ''Upload Images'' \<notin> set (map label items)"
    by blast
next
  assume r: "jar ''userRole'' = Some ''radiologist''"
  have "load_dashboard jar = (ShellView (Sidebar ''radiologist''), [])"
    using r by (simp add: load_dashboard_role)
  moreover have "''Upload Images'' \<in> set (map label (Sidebar ''radiologist''))"
    by (simp add: Sidebar_radiologist_labels)
  ultimately show "\<exists>items. load_dashboard jar = (ShellView items, [])
      \<and> ''Upload Images'' \<in> set (map label items)"
    by blast
next
  assume "jar ''userRole'' = Some role \<and> role \<noteq> []"
  then show "load_dashboard jar = (ShellView (Sidebar role), [])"
    by (simp add: load_dashboard_role)
next
  show "Sidebar role = filter (\<lambda>item. role \<in> set (roles item)) menuItems"
    by (simp add: Sidebar_def)
next
  show "\<forall>item. item \<in> set (Sidebar role)
      \<longleftrightarrow> item \<in> set menuItems \<and> role \<in> set (roles item)"
    by (simp add: Sidebar_set)
qed

theorem sidebar_role_filter_witness:
  "load_dashboard doctor_jar = (ShellView (Sidebar ''doctor''), [])
   \<and> ''Upload Images'' \<notin> set (map label (Sidebar ''doctor''))
   \<and> load_dashboard radiologist_jar = (ShellView (Sidebar ''radiologist''), [])
   \<and> ''Upload Images'' \<in> set (map label (Sidebar ''radiologist''))"
proof -
  have d: "doctor_jar ''userRole'' = Some ''doctor''"
    by (simp add: doctor_jar_def)
  have r: "radiologist_jar ''userRole'' = Some ''radiologist''"
    by (simp add: radiologist_jar_def)
  from sidebar_role_filter [of doctor_jar "''doctor''"] d
  have 1: "load_dashboard doctor_jar = (ShellView (Sidebar ''doctor''), [])"
    by simp
  from sidebar_role_filter [of radiologist_jar "''radiologist''"] r
  have 2: "load_dashboard radiologist_jar = (ShellView (Sidebar ''radiologist''), [])"
    by simp
  from sidebar_role_filter [of doctor_jar "''doctor''"] d 1
  have 3: "''Upload Images'' \<notin> set (map label (Sidebar ''doctor''))"
    by auto
  from sidebar_role_filter [of radiologist_jar "''radiologist''"] r 2
  have 4: "''Upload Images'' \<in> set (map label (Sidebar ''radiologist''))"
    by auto
  from 1 2 3 4 show ?thesis by simp
qed

text \<open>
  C7.  A load of the dashboard shell with no role cookie redirects to the login view
  (\<open>router.push("/")\<close>) and renders the loading placeholder, not the role-gated layout.
\<close>

theorem no_cookie_redirects:
  "jar ''userRole'' = None \<Longrightarrow>
     load_dashboard jar = (LoadingView, [RouterPush ''/''])
     \<and> (\<forall>items. fst (load_dashboard jar) \<noteq> ShellView items)"
  by (simp add: load_dashboard_def layout_effect_def layout_render_def layout_init_def)

theorem no_cookie_redirects_witness:
  "Map.empty ''userRole'' = (None :: string option)
   \<and> load_dashboard Map.empty = (LoadingView, [RouterPush ''/''])"
  using no_cookie_redirects [of Map.empty] by simp

text \<open>
  C8.  Submitting the login form with a role selected and both email and password
  non-empty sets the cookie "userRole" to the selected role's name (one of "doctor" and
  "radiologist") with a maximum age of 24 hours (86400 seconds) and path "/", then
  navigates to "/dashboard".  With no role selected, the error message is set and no
  effect (no cookie, no navigation) happens.  The credentials are looked at only for
  emptiness: two submissions with the same selected role whose emails are both empty or
  both non-empty, and likewise their passwords, perform the same effects.
\<close>

theorem login_submit:
  "(selectedRole s = Some r \<and> email s \<noteq> [] \<and> password s \<noteq> [] \<longrightarrow>
      handleSubmit s =
        (s, [SetCookie ''userRole'' (role_name r) 86400 ''/'', RouterPush ''/dashboard''])
      \<and> (role_name r = ''doctor'' \<or> role_name r = ''radiologist''))
   \<and> (selectedRole s = None \<longrightarrow>
      handleSubmit s = (s\<lparr>error := ''Please select a role''\<rparr>, []))
   \<and> (selectedRole s = selectedRole s' \<and> (email s = [] \<longleftrightarrow> email s' = [])
        \<and> (password s = [] \<longleftrightarrow> password s' = []) \<longrightarrow>
      snd (handleSubmit s) = snd (handleSubmit s'))"
proof (intro conjI impI)
  assume "selectedRole s = Some r \<and> email s \<noteq> [] \<and> password s \<noteq> []"
  then show "handleSubmit s =
      (s, [SetCookie ''userRole'' (role_name r) 86400 ''/'', RouterPush ''/dashboard''])"
    by (simp add: handleSubmit_def)
next
  show "role_name r = ''doctor'' \<or> role_name r = ''radiologist''"
    by (cases r) simp_all
next
  assume "selectedRole s = None"
  then show "handleSubmit s = (s\<lparr>error := ''Please select a role''\<rparr>, [])"
    by (simp add: handleSubmit_def)
next
  assume "selectedRole s = selectedRole s' \<and> (email s = [] \<longleftrightarrow> email s' = [])
      \<and> (password s = [] \<longleftrightarrow> password s' = [])"
  then show "snd (handleSubmit s) = snd (handleSubmit s')"
    by (auto simp: handleSubmit_def split: option.splits)
qed

theorem login_submit_witness:
  "handleSubmit filled_login =
     (filled_login, [SetCookie ''userRole'' ''radiologist'' 86400 ''/'',
                     RouterPush ''/dashboard''])
   \<and> handleSubmit login_init = (login_init\<lparr>error := ''Please select a role''\<rparr>, [])
   \<and> snd (handleSubmit filled_login) = snd (handleSubmit (filled_login\<lparr>password := ''y''\<rparr>))"
proof -
  have 1: "handleSubmit filled_login =
     (filled_login, [SetCookie ''userRole'' ''radiologist'' 86400 ''/'',
                     RouterPush ''/dashboard''])"
    using login_submit [of filled_login Radiologist filled_login]
    by (simp add: filled_login_def)
  have 2: "handleSubmit login_init = (login_init\<lparr>error := ''Please select a role''\<rparr>, [])"
    using login_submit [of login_init Doctor login_init]
    by (simp add: login_init_def)
  have 3: "snd (handleSubmit filled_login)
      = snd (handleSubmit (filled_login\<lparr>password := ''y''\<rparr>))"
  proof -
    have "selectedRole filled_login = selectedRole (filled_login\<lparr>password := ''y''\<rparr>)"
      "email filled_login = [] \<longleftrightarrow> email (filled_login\<lparr>password := ''y''\<rparr>) = []"
      "password filled_login = [] \<longleftrightarrow> password (filled_login\<lparr>password := ''y''\<rparr>) = []"
      by (simp_all add: filled_login_def)
    with login_submit [of filled_login Radiologist "filled_login\<lparr>password := ''y''\<rparr>"]
    show ?thesis by blast
  qed
  from 1 2 3 show ?thesis by simp
qed

lemma logout_click_id: "logout_click s = s"
  by (simp add: logout_click_def logout_onClick_def)

lemma logout_clicks_id: "(logout_click ^^ n) s = s"
  by (induction n) (simp_all add: logout_click_id)

text \<open>
  C9.  The logout control's handler only writes to the console.  Any number of logout
  clicks leaves the role cookie, every other cookie and the layout's authenticated role
  as they were.
\<close>

theorem logout_is_inert:
  "logout_onClick = [ConsoleLog ''Logout clicked'']
   \<and> cookie_jar ((logout_click ^^ n) s) = cookie_jar s
   \<and> cookie_jar ((logout_click ^^ n) s) ''userRole'' = cookie_jar s ''userRole''
   \<and> authenticated_as ((logout_click ^^ n) s) = authenticated_as s
   \<and> (logout_click ^^ n) s = s"
  by (simp add: logout_clicks_id logout_onClick_def)


section \<open>Properties of the relay endpoints\<close>

lemma form_get_absent: "map_of fd k = None \<Longrightarrow> form_get fd k = JNull"
  by (simp add: form_get_def)

lemma catch_Some:
  "fst (catch tag msg c) = Some r \<longleftrightarrow>
     (fst c = Return r \<or> (\<exists>x. fst c = Throw x) \<and> r = failure msg)"
  by (cases "(tag, msg, c)" rule: catch.cases) auto

lemma catch_effects_Spawn:
  "Spawn args \<in> set (snd (catch tag msg c)) \<longleftrightarrow> Spawn args \<in> set (snd c)"
  by (cases "(tag, msg, c)" rule: catch.cases) auto

lemma collect_from: "foldl (\<lambda>result data. result @ f data) acc chunks = acc @ concat (map f chunks)"
  by (induction chunks arbitrary: acc) simp_all

lemma collect_concat: "collect e chunks = concat (map (toString e) chunks)"
  by (simp add: collect_def collect_from)

lemma collect_single: "collect e [chunk] = toString e chunk"
  by (simp add: collect_def)

lemma catch_effects_WriteFile:
  "WriteFile p b \<in> set (snd (catch tag msg c)) \<longleftrightarrow> WriteFile p b \<in> set (snd c)"
  by (cases "(tag, msg, c)" rule: catch.cases) auto


lemma spawn_and_relay_fail:
  "python e args = Closed code out err \<Longrightarrow> code \<noteq> Some 0 \<or> err \<noteq> [] \<Longrightarrow>
     \<exists>x. spawn_and_relay e args sofar wrap = (Throw x, sofar @ [Spawn args])"
  by (auto simp: spawn_and_relay_def)

lemma spawn_and_relay_Spawn:
  "Spawn a \<in> set (snd (spawn_and_relay e args sofar wrap)) \<Longrightarrow> Spawn a \<notin> set sofar \<Longrightarrow>
     a = args"
  by (auto simp: spawn_and_relay_def split: proc_outcome.splits if_splits option.splits)

lemma POST_try_spawned:
  assumes "Spawn a \<in> set (snd (POST_try e req))"
  shows "\<exists>sofar. POST_try e req = spawn_and_relay e a sofar train_ok"
  using assms
  by (auto simp: POST_try_def Let_def split: option.splits if_splits jsval.splits
      dest!: spawn_and_relay_Spawn)

lemma infer_try_spawned:
  assumes "Spawn a \<in> set (snd (infer_try e req))"
  shows "\<exists>sofar wrap. infer_try e req = spawn_and_relay e a sofar wrap"
  using assms
  apply (auto simp: infer_try_def Let_def split: option.splits if_splits jsval.splits
      dest!: spawn_and_relay_Spawn)
  apply (intro exI)
  apply (rule refl)
  done


lemma spawn_and_relay_effects:
  "\<exists>rest. snd (spawn_and_relay e args sofar wrap) = sofar @ rest
     \<and> (\<forall>p b. WriteFile p b \<notin> set rest)"
  by (auto simp: spawn_and_relay_def split: proc_outcome.splits option.splits)

lemma spawn_and_relay_effects2:
  "\<exists>rest. snd (spawn_and_relay e args [x, y] wrap) = x # y # rest
     \<and> (\<forall>p b. WriteFile p b \<notin> set rest)"
  using spawn_and_relay_effects [of e args "[x, y]" wrap] by simp

lemma catch_effects:
  "\<exists>rest. snd (catch tag msg c) = snd c @ rest \<and> (\<forall>p b. WriteFile p b \<notin> set rest)"
  by (cases "(tag, msg, c)" rule: catch.cases) auto

lemma spawn_and_relay_hd:
  "\<exists>rest. snd (spawn_and_relay e args (x # xs) wrap) = x # rest"
  using spawn_and_relay_effects [of e args "x # xs" wrap] by auto

lemma POST_try_mkdir_first:
  "formData req = Some fd \<Longrightarrow>
     \<exists>rest. snd (POST_try e req) = Mkdir (path_join e (cwd e) ''temp'') # rest"
  by (auto simp: POST_try_def Let_def spawn_and_relay_hd split: option.splits jsval.splits)

lemma POST_train_mkdir_first:
  assumes "formData req = Some fd"
  shows "\<exists>rest. snd (POST_train e req) = Mkdir (path_join e (cwd e) ''temp'') # rest"
proof -
  obtain r1 where "snd (POST_try e req) = Mkdir (path_join e (cwd e) ''temp'') # r1"
    using POST_try_mkdir_first [OF assms] by blast
  moreover obtain r2 where "snd (POST_train e req) = snd (POST_try e req) @ r2"
    unfolding POST_train_def using catch_effects by blast
  ultimately show ?thesis by simp
qed

text \<open>
  C1 (as amended).  A multipart request to the inference endpoint in which \<open>image\<close> or
  \<open>type\<close> is absent, or is the empty string, is answered with the failure envelope
  "Missing required fields" and HTTP status 400, and the handler has done nothing before
  it: no directory created, no file written, no process spawned.  The training endpoint's
  \<open>POST\<close> has no such check: for every multipart request its first effect is the
  \<open>mkdir\<close> of the temp directory, and a response of it has status 200 or 500, never 400.
\<close>

theorem missing_field_rejected:
  "(formData req = Some fd
      \<and> (map_of fd ''image'' = None \<or> map_of fd ''type'' = None
          \<or> form_get fd ''image'' = JStr [] \<or> form_get fd ''type'' = JStr []) \<longrightarrow>
      POST_infer (e :: 'j env) req = (Some missing_fields, []))
   \<and> status (missing_fields :: 'j response) = 400
   \<and> body (missing_fields :: 'j response)
        = [(''success'', VBool False), (''error'', VStr ''Missing required fields'')]
   \<and> (fst (POST_train e' req') = Some r \<longrightarrow> status r = 200 \<or> status r = 500)
   \<and> (formData req' = Some fd' \<longrightarrow>
        (\<exists>rest. snd (POST_train e' req') = Mkdir (path_join e' (cwd e') ''temp'') # rest))"
proof (intro conjI impI)
  assume a: "formData req = Some fd
      \<and> (map_of fd ''image'' = None \<or> map_of fd ''type'' = None
          \<or> form_get fd ''image'' = JStr [] \<or> form_get fd ''type'' = JStr [])"
  then have "\<not> truthy (form_get fd ''image'') \<or> \<not> truthy (form_get fd ''type'')"
    by (auto simp: form_get_absent)
  with a show "POST_infer e req = (Some missing_fields, [])"
    by (simp add: POST_infer_def infer_try_def Let_def)
next
  show "status (missing_fields :: 'j response) = 400"
    by (simp add: missing_fields_def)
next
  show "body (missing_fields :: 'j response)
        = [(''success'', VBool False), (''error'', VStr ''Missing required fields'')]"
    by (simp add: missing_fields_def)
next
  assume r: "fst (POST_train e' req') = Some r"
  then consider "fst (POST_try e' req') = Return r" | "r = failure ''Training operation failed''"
    by (auto simp: POST_train_def catch_Some)
  then show "status r = 200 \<or> status r = 500"
  proof cases
    case 1
    then show ?thesis
      by (auto simp: POST_try_def Let_def spawn_and_relay_def train_ok_def
          split: option.splits if_splits jsval.splits proc_outcome.splits)
  next
    case 2
    then show ?thesis by (simp add: failure_def)
  qed
next
  assume "formData req' = Some fd'"
  then show "\<exists>rest. snd (POST_train e' req') = Mkdir (path_join e' (cwd e') ''temp'') # rest"
    by (rule POST_train_mkdir_first)
qed


lemma GET_try_spawned:
  assumes "Spawn a \<in> set (snd (GET_try e))"
  shows "a = [JStr (path_join e (cwd e) ''fl-backend/server/cli.py''), JStr ''--mode'',
              JStr ''status'']"
  using assms
  by (auto simp: GET_try_def Let_def split: proc_outcome.splits if_splits option.splits)

lemma GET_try_closed:
  assumes "Spawn a \<in> set (snd (GET_try e))" and "python e a = Closed code out err"
  shows "fst (GET_try e) =
     (if code \<noteq> Some 0 then Throw (ProcessExited code)
      else case json_parse e (collect e out) of
             None \<Rightarrow> Throw SyntaxError
           | Some doc \<Rightarrow> Return \<lparr>status = 200,
               body = [(''success'', VBool True), (''status'', VDoc doc)]\<rparr>)"
proof -
  from GET_try_spawned [OF assms(1)] assms(2)
  have "python e [JStr (path_join e (cwd e) ''fl-backend/server/cli.py''), JStr ''--mode'',
              JStr ''status''] = Closed code out err"
    by simp
  then show ?thesis
    by (simp add: GET_try_def Let_def split: option.splits)
qed


text \<open>
  C3 (as amended).  When the process a handler spawned closes with an exit code other than
  0 (or with none, killed by a signal), the inference endpoint, the training \<open>POST\<close> and
  the training \<open>GET\<close> each answer \<open>{ success: false, error: <the endpoint's fixed
  message> }\<close> with status 500.  When the process wrote anything to standard error, the
  inference endpoint and the training \<open>POST\<close> answer the same way, whatever the exit code;
  the training \<open>GET\<close> does not read standard error.
\<close>

theorem process_failure_relay:
  "(Spawn a \<in> set (snd (POST_infer (e :: 'j env) req)) \<and> python e a = Closed code out err
      \<and> (code \<noteq> Some 0 \<or> err \<noteq> []) \<longrightarrow>
      fst (POST_infer e req) = Some (failure ''Inference failed''))
   \<and> (Spawn a \<in> set (snd (POST_train e req)) \<and> python e a = Closed code out err
      \<and> (code \<noteq> Some 0 \<or> err \<noteq> []) \<longrightarrow>
      fst (POST_train e req) = Some (failure ''Training operation failed''))
   \<and> (Spawn a \<in> set (snd (GET_train e)) \<and> python e a = Closed code out err
      \<and> code \<noteq> Some 0 \<longrightarrow>
      fst (GET_train e) = Some (failure ''Failed to get training status''))
   \<and> status (failure msg :: 'j response) = 500
   \<and> body (failure msg :: 'j response) = [(''success'', VBool False), (''error'', VStr msg)]"
proof (intro conjI impI)
  assume h: "Spawn a \<in> set (snd (POST_infer e req)) \<and> python e a = Closed code out err
      \<and> (code \<noteq> Some 0 \<or> err \<noteq> [])"
  then have "Spawn a \<in> set (snd (infer_try e req))"
    by (simp add: POST_infer_def catch_effects_Spawn)
  then obtain sofar wrap where "infer_try e req = spawn_and_relay e a sofar wrap"
    using infer_try_spawned by blast
  with h obtain x where "fst (infer_try e req) = Throw x"
    using spawn_and_relay_fail [of e a code out err sofar wrap] by auto
  then show "fst (POST_infer e req) = Some (failure ''Inference failed'')"
    by (simp add: POST_infer_def catch_Some)
next
  assume h: "Spawn a \<in> set (snd (POST_train e req)) \<and> python e a = Closed code out err
      \<and> (code \<noteq> Some 0 \<or> err \<noteq> [])"
  then have "Spawn a \<in> set (snd (POST_try e req))"
    by (simp add: POST_train_def catch_effects_Spawn)
  then obtain sofar where "POST_try e req = spawn_and_relay e a sofar train_ok"
    using POST_try_spawned by blast
  with h obtain x where "fst (POST_try e req) = Throw x"
    using spawn_and_relay_fail [of e a code out err sofar train_ok] by auto
  then show "fst (POST_train e req) = Some (failure ''Training operation failed'')"
    by (simp add: POST_train_def catch_Some)
next
  assume h: "Spawn a \<in> set (snd (GET_train e)) \<and> python e a = Closed code out err
      \<and> code \<noteq> Some 0"
  then have "Spawn a \<in> set (snd (GET_try e))"
    by (simp add: GET_train_def catch_effects_Spawn)
  with h have "fst (GET_try e) = Throw (ProcessExited code)"
    by (simp add: GET_try_closed)
  then show "fst (GET_train e) = Some (failure ''Failed to get training status'')"
    by (simp add: GET_train_def catch_Some)
next
  show "status (failure msg :: 'j response) = 500"
    by (simp add: failure_def)
next
  show "body (failure msg :: 'j response) = [(''success'', VBool False), (''error'', VStr msg)]"
    by (simp add: failure_def)
qed


lemma infer_try_Return:
  assumes "fst (infer_try e req) = Return r"
  shows "r = missing_fields
     \<or> (\<exists>fd image_name buffer a chunks doc.
          formData req = Some fd \<and> form_get fd ''image'' = JFile image_name buffer
          \<and> WriteFile (path_join e (path_join e (cwd e) ''uploads'')
                (fileName (form_get fd ''patientId'') (now e) image_name)) buffer
              \<in> set (snd (infer_try e req))
          \<and> Spawn a \<in> set (snd (infer_try e req))
          \<and> python e a = Closed (Some 0) chunks []
          \<and> json_parse e (collect e chunks) = Some doc
          \<and> r = \<lparr>status = 200, body = [(''success'', VBool True), (''result'', VDoc doc),
                (''imagePath'',
                 VStr (fileName (form_get fd ''patientId'') (now e) image_name))]\<rparr>)"
proof (cases "formData req")
  case None
  with assms show ?thesis by (simp add: infer_try_def)
next
  case (Some fd)
  show ?thesis
  proof (cases "truthy (form_get fd ''image'') \<and> truthy (form_get fd ''type'')")
    case False
    with Some assms show ?thesis by (auto simp: infer_try_def Let_def)
  next
    case True
    let ?dir = "path_join e (cwd e) ''uploads''"
    from True Some assms obtain image_name buffer where
      img: "form_get fd ''image'' = JFile image_name buffer" and mk: "mkdir e ?dir = None"
      by (auto simp: infer_try_def Let_def split: option.splits jsval.splits)
    let ?fname = "fileName (form_get fd ''patientId'') (now e) image_name"
    let ?path = "path_join e ?dir ?fname"
    let ?args = "[JStr (path_join e (cwd e) ''fl-backend/server/inference.py''),
                  JStr ''--image_path'', JStr ?path,
                  JStr ''--image_type'', form_get fd ''type'',
                  JStr ''--patient_id'', form_get fd ''patientId'',
                  JStr ''--patient_name'', form_get fd ''patientName'']"
    let ?wrap = "\<lambda>analysis. \<lparr>status = 200, body = [(''success'', VBool True),
                   (''result'', VDoc analysis), (''imagePath'', VStr ?fname)]\<rparr>"
    from True Some assms img mk have wr: "writeFile e ?path buffer = None"
      by (auto simp: infer_try_def Let_def split: option.splits)
    with True Some img mk have run: "infer_try e req
        = spawn_and_relay e ?args [Mkdir ?dir, WriteFile ?path buffer] ?wrap"
      by (simp add: infer_try_def Let_def)
    with assms obtain chunks doc where
      py: "python e ?args = Closed (Some 0) chunks []"
      and doc: "json_parse e (collect e chunks) = Some doc" and r: "r = ?wrap doc"
      by (auto simp: spawn_and_relay_def split: proc_outcome.splits if_splits option.splits)
    from run py doc have effs: "snd (infer_try e req)
        = [Mkdir ?dir, WriteFile ?path buffer, Spawn ?args]"
      by (simp add: spawn_and_relay_def)
    have "formData req = Some fd \<and> form_get fd ''image'' = JFile image_name buffer
          \<and> WriteFile ?path buffer \<in> set (snd (infer_try e req))
          \<and> Spawn ?args \<in> set (snd (infer_try e req))
          \<and> python e ?args = Closed (Some 0) chunks []
          \<and> json_parse e (collect e chunks) = Some doc
          \<and> r = ?wrap doc"
      using Some img effs py doc r by simp
    then show ?thesis by blast
  qed
qed

text \<open>
  C4 (as amended).  Every response of the inference endpoint has a body whose fields are
  drawn from \<open>success\<close>, \<open>result\<close>, \<open>imagePath\<close> and \<open>error\<close>, and \<open>success\<close> is
  always present.  Precisely: with status 400 or 500 the body is
  \<open>{ success: false, error: <string> }\<close>; with status 200 it is
  \<open>{ success: true, result: <document>, imagePath: <string> }\<close>, where \<open>result\<close> is
  what \<open>JSON.parse\<close> made of the standard output collected from the process the handler
  spawned, and \<open>imagePath\<close> is the name
  \<^verbatim>\<open>`${patientId}_${Date.now()}_${image.name}`\<close> that the handler joined to the uploads
  directory with \<open>path.join\<close> to get the path it wrote the uploaded bytes to.
\<close>

theorem infer_response_schema:
  "fst (POST_infer e req) = Some r \<longrightarrow>
     ''success'' \<in> fst ` set (body r)
     \<and> fst ` set (body r) \<subseteq> {''success'', ''result'', ''imagePath'', ''error''}
     \<and> ((status r = 400 \<or> status r = 500)
           \<and> (\<exists>msg. body r = [(''success'', VBool False), (''error'', VStr msg)])
         \<or> status r = 200
           \<and> (\<exists>fd image_name buffer a chunks doc.
                 formData req = Some fd \<and> form_get fd ''image'' = JFile image_name buffer
                 \<and> WriteFile (path_join e (path_join e (cwd e) ''uploads'')
                       (fileName (form_get fd ''patientId'') (now e) image_name)) buffer
                     \<in> set (snd (POST_infer e req))
                 \<and> Spawn a \<in> set (snd (POST_infer e req))
                 \<and> python e a = Closed (Some 0) chunks []
                 \<and> json_parse e (collect e chunks) = Some doc
                 \<and> body r = [(''success'', VBool True), (''result'', VDoc doc),
                       (''imagePath'',
                        VStr (fileName (form_get fd ''patientId'') (now e) image_name))]))"
proof
  assume resp: "fst (POST_infer e req) = Some r"
  then consider (missing) "r = missing_fields" | (failed) "r = failure ''Inference failed''"
    | (ok) fd image_name buffer a chunks doc where
        "formData req = Some fd" "form_get fd ''image'' = JFile image_name buffer"
        "WriteFile (path_join e (path_join e (cwd e) ''uploads'')
            (fileName (form_get fd ''patientId'') (now e) image_name)) buffer
          \<in> set (snd (infer_try e req))"
        "Spawn a \<in> set (snd (infer_try e req))"
        "python e a = Closed (Some 0) chunks []"
        "json_parse e (collect e chunks) = Some doc"
        "r = \<lparr>status = 200, body = [(''success'', VBool True), (''result'', VDoc doc),
            (''imagePath'', VStr (fileName (form_get fd ''patientId'') (now e) image_name))]\<rparr>"
    using infer_try_Return [of e req r] by (auto simp: POST_infer_def catch_Some)
  then show "''success'' \<in> fst ` set (body r)
     \<and> fst ` set (body r) \<subseteq> {''success'', ''result'', ''imagePath'', ''error''}
     \<and> ((status r = 400 \<or> status r = 500)
           \<and> (\<exists>msg. body r = [(''success'', VBool False), (''error'', VStr msg)])
         \<or> status r = 200
           \<and> (\<exists>fd image_name buffer a chunks doc.
                 formData req = Some fd \<and> form_get fd ''image'' = JFile image_name buffer
                 \<and> WriteFile (path_join e (path_join e (cwd e) ''uploads'')
                       (fileName (form_get fd ''patientId'') (now e) image_name)) buffer
                     \<in> set (snd (POST_infer e req))
                 \<and> Spawn a \<in> set (snd (POST_infer e req))
                 \<and> python e a = Closed (Some 0) chunks []
                 \<and> json_parse e (collect e chunks) = Some doc
                 \<and> body r = [(''success'', VBool True), (''result'', VDoc doc),
                       (''imagePath'',
                        VStr (fileName (form_get fd ''patientId'') (now e) image_name))]))"
  proof cases
    case missing
    then show ?thesis by (simp add: missing_fields_def)
  next
    case failed
    then show ?thesis by (simp add: failure_def)
  next
    case ok
    have "formData req = Some fd \<and> form_get fd ''image'' = JFile image_name buffer
        \<and> WriteFile (path_join e (path_join e (cwd e) ''uploads'')
              (fileName (form_get fd ''patientId'') (now e) image_name)) buffer
            \<in> set (snd (POST_infer e req))
        \<and> Spawn a \<in> set (snd (POST_infer e req))
        \<and> python e a = Closed (Some 0) chunks []
        \<and> json_parse e (collect e chunks) = Some doc
        \<and> body r = [(''success'', VBool True), (''result'', VDoc doc),
              (''imagePath'', VStr (fileName (form_get fd ''patientId'') (now e) image_name))]"
      using ok by (simp add: POST_infer_def catch_effects_Spawn catch_effects_WriteFile)
    then have "\<exists>fd image_name buffer a chunks doc.
        formData req = Some fd \<and> form_get fd ''image'' = JFile image_name buffer
        \<and> WriteFile (path_join e (path_join e (cwd e) ''uploads'')
              (fileName (form_get fd ''patientId'') (now e) image_name)) buffer
            \<in> set (snd (POST_infer e req))
        \<and> Spawn a \<in> set (snd (POST_infer e req))
        \<and> python e a = Closed (Some 0) chunks []
        \<and> json_parse e (collect e chunks) = Some doc
        \<and> body r = [(''success'', VBool True), (''result'', VDoc doc),
              (''imagePath'', VStr (fileName (form_get fd ''patientId'') (now e) image_name))]"
      by blast
    moreover from ok have "status r = 200" "''success'' \<in> fst ` set (body r)"
      "fst ` set (body r) \<subseteq> {''success'', ''result'', ''imagePath'', ''error''}"
      by simp_all
    ultimately show ?thesis by blast
  qed
qed

text \<open>
  C5.  For an upload of a file named \<open>scan.dcm\<close> with \<open>type=ct\<close> and
  \<open>patientId=42\<close>, the file name computed at time \<open>t\<close> is \<open>42_\<close>, the decimal
  digits of \<open>t\<close>, \<open>_scan.dcm\<close>: it contains \<open>42_\<close> and, after it, \<open>scan.dcm\<close>.
  When the uploads directory can be created, the handler's first two effects are the
  \<open>mkdir\<close> and the \<open>writeFile\<close> of the uploaded bytes under that name in the uploads
  directory, and it writes no other file.
\<close>

theorem persisted_file_name:
  "fileName (JStr ''42'') t ''scan.dcm'' = ''42_'' @ show_nat t @ ''_scan.dcm''
   \<and> (\<exists>pre mid post. fileName (JStr ''42'') t ''scan.dcm''
          = pre @ ''42_'' @ mid @ ''scan.dcm'' @ post)
   \<and> (formData req = Some fd \<and> form_get fd ''image'' = JFile ''scan.dcm'' buf
        \<and> form_get fd ''type'' = JStr ''ct'' \<and> form_get fd ''patientId'' = JStr ''42''
        \<and> mkdir e (path_join e (cwd e) ''uploads'') = None \<longrightarrow>
      (\<exists>rest. snd (POST_infer e req) =
          Mkdir (path_join e (cwd e) ''uploads'')
          # WriteFile (path_join e (path_join e (cwd e) ''uploads'')
                        (fileName (JStr ''42'') (now e) ''scan.dcm'')) buf
          # rest
        \<and> (\<forall>p b. WriteFile p b \<notin> set rest)))"
proof (intro conjI impI)
  show eq: "fileName (JStr ''42'') t ''scan.dcm'' = ''42_'' @ show_nat t @ ''_scan.dcm''"
    by (simp add: fileName_def)
  have "fileName (JStr ''42'') t ''scan.dcm'' = [] @ ''42_'' @ (show_nat t @ ''_'') @ ''scan.dcm'' @ []"
    by (simp add: fileName_def)
  then show "\<exists>pre mid post. fileName (JStr ''42'') t ''scan.dcm''
          = pre @ ''42_'' @ mid @ ''scan.dcm'' @ post"
    by blast
next
  let ?dir = "path_join e (cwd e) ''uploads''"
  let ?path = "path_join e ?dir (fileName (JStr ''42'') (now e) ''scan.dcm'')"
  assume h: "formData req = Some fd \<and> form_get fd ''image'' = JFile ''scan.dcm'' buf
        \<and> form_get fd ''type'' = JStr ''ct'' \<and> form_get fd ''patientId'' = JStr ''42''
        \<and> mkdir e (path_join e (cwd e) ''uploads'') = None"
  have "\<exists>rest. snd (infer_try e req) = [Mkdir ?dir, WriteFile ?path buf] @ rest
      \<and> (\<forall>p b. WriteFile p b \<notin> set rest)"
  proof (cases "writeFile e ?path buf")
    case None
    with h show ?thesis
      by (simp add: infer_try_def Let_def spawn_and_relay_effects2)
  next
    case (Some c)
    with h show ?thesis
      by (simp add: infer_try_def Let_def)
  qed
  then obtain r1 where r1: "snd (infer_try e req) = [Mkdir ?dir, WriteFile ?path buf] @ r1"
      "\<forall>p b. WriteFile p b \<notin> set r1"
    by blast
  obtain r2 where r2: "snd (POST_infer e req) = snd (infer_try e req) @ r2"
      "\<forall>p b. WriteFile p b \<notin> set r2"
    unfolding POST_infer_def using catch_effects by blast
  from r1 r2 have "snd (POST_infer e req) = Mkdir ?dir # WriteFile ?path buf # (r1 @ r2)
      \<and> (\<forall>p b. WriteFile p b \<notin> set (r1 @ r2))"
    by simp
  then show "\<exists>rest. snd (POST_infer e req) = Mkdir ?dir # WriteFile ?path buf # rest
        \<and> (\<forall>p b. WriteFile p b \<notin> set rest)"
    by blast
qed


lemma show_nat_demo: "show_nat 1700000000000 = ''1700000000000''"
  by (simp add: show_nat.simps digit_def)

lemma path_join_world: "path_join (world py) = plain_join"
  by (simp add: world_def)

lemma toString_world: "toString (world py) = utf8_toString"
  by (simp add: world_def)

lemma collect_demo:
  assumes "toString e = utf8_toString"
  shows "collect e [''{'', ''}''] = ''{}''" and "collect e [''{}''] = ''{}''"
  using assms by (simp_all add: collect_def)

lemma python_world: "python (world py) = py"
  by (simp add: world_def)

lemma parse_world: "json_parse (world py) = tiny_parse"
  by (simp add: world_def)

lemma eval_infer_scan:
  "POST_infer (world quiet_python) scan_request =
     (Some \<lparr>status = 200, body = [(''success'', VBool True), (''result'', VDoc ''{}''),
        (''imagePath'', VStr ''42_1700000000000_scan.dcm'')]\<rparr>,
      [Mkdir ''/app/uploads'', WriteFile ''/app/uploads/42_1700000000000_scan.dcm'' ''DICM'',
       Spawn [JStr ''/app/fl-backend/server/inference.py'',
              JStr ''--image_path'', JStr ''/app/uploads/42_1700000000000_scan.dcm'',
              JStr ''--image_type'', JStr ''ct'', JStr ''--patient_id'', JStr ''42'',
              JStr ''--patient_name'', JStr ''Ann'']])"
  by (simp add: POST_infer_def infer_try_def world_def scan_request_def form_get_def
      fileName_def path_join_world plain_join_def show_nat_demo spawn_and_relay_def quiet_python_def
      tiny_parse_def collect_demo toString_world Let_def)

lemma eval_infer_scan_py:
  "POST_infer (world py) scan_request =
     catch ''Inference error:'' ''Inference failed''
       (spawn_and_relay (world py)
          [JStr ''/app/fl-backend/server/inference.py'',
           JStr ''--image_path'', JStr ''/app/uploads/42_1700000000000_scan.dcm'',
           JStr ''--image_type'', JStr ''ct'', JStr ''--patient_id'', JStr ''42'',
           JStr ''--patient_name'', JStr ''Ann'']
          [Mkdir ''/app/uploads'',
           WriteFile ''/app/uploads/42_1700000000000_scan.dcm'' ''DICM'']
          (\<lambda>analysis. \<lparr>status = 200, body = [(''success'', VBool True),
             (''result'', VDoc analysis),
             (''imagePath'', VStr ''42_1700000000000_scan.dcm'')]\<rparr>))"
  by (simp add: POST_infer_def infer_try_def world_def scan_request_def form_get_def
      fileName_def path_join_world plain_join_def show_nat_demo Let_def)

lemma eval_train_start_py:
  "POST_train (world py) start_round_request =
     catch ''Training error:'' ''Training operation failed''
       (spawn_and_relay (world py)
          [JStr ''/app/fl-backend/server/cli.py'', JStr ''--mode'', JStr ''start_round'',
           JStr ''--client_id'', JStr ''c1'']
          [Mkdir ''/app/temp''] train_ok)"
  by (simp add: POST_train_def POST_try_def world_def start_round_request_def form_get_def
      createTempDir_def path_join_world plain_join_def Let_def)

text \<open>
  C1, the claim as stated fails for the training endpoint: a \<open>POST\<close> without \<open>action\<close>
  (and with a model update) creates the temp directory, writes the update to disk, passes
  \<open>null\<close> as the mode to \<open>spawn\<close> and answers 500, not 400.
\<close>

theorem train_no_action_counterexample:
  "formData no_action_request
     = Some [(''clientId'', JStr ''c1''), (''modelUpdate'', JFile ''update.pt'' ''w'')]
   \<and> map_of [(''clientId'', JStr ''c1''), (''modelUpdate'', JFile ''update.pt'' ''w'')] ''action''
     = None
   \<and> POST_train (world quiet_python) no_action_request =
     (Some \<lparr>status = 500, body = [(''success'', VBool False),
        (''error'', VStr ''Training operation failed'')]\<rparr>,
      [Mkdir ''/app/temp'', WriteFile ''/app/temp/update_c1_1700000000000.pt'' ''w'',
       Spawn [JStr ''/app/fl-backend/server/cli.py'', JStr ''--mode'', JNull,
              JStr ''--client_id'', JStr ''c1'', JStr ''--update_path'',
              JStr ''/app/temp/update_c1_1700000000000.pt''],
       ConsoleError ''Training error:''])"
  by (simp add: POST_train_def POST_try_def world_def no_action_request_def form_get_def
      createTempDir_def path_join_world plain_join_def show_nat_demo spawn_and_relay_def quiet_python_def
      failure_def Let_def)

text \<open>C1, evaluated: an inference request without \<open>type\<close>, and a training request.\<close>

theorem missing_field_rejected_witness:
  "formData no_type_request
     = Some [(''image'', JFile ''scan.dcm'' ''DICM''), (''patientId'', JStr ''42'')]
   \<and> map_of [(''image'', JFile ''scan.dcm'' ''DICM''), (''patientId'', JStr ''42'')] ''type'' = None
   \<and> POST_infer (world quiet_python) no_type_request = (Some missing_fields, [])
   \<and> fst (POST_train (world quiet_python) start_round_request) = Some (train_ok ''{}'')
   \<and> (status (train_ok ''{}'') = 200 \<or> status (train_ok ''{}'') = 500)
   \<and> (\<exists>rest. snd (POST_train (world quiet_python) start_round_request)
         = Mkdir (path_join (world quiet_python) (cwd (world quiet_python)) ''temp'') # rest)"
proof -
  let ?fd = "[(''image'', JFile ''scan.dcm'' ''DICM''), (''patientId'', JStr ''42'')]"
  have h: "formData no_type_request = Some ?fd" "map_of ?fd ''type'' = None"
    by (simp_all add: no_type_request_def)
  have t: "fst (POST_train (world quiet_python) start_round_request) = Some (train_ok ''{}'')"
    by (simp add: eval_train_start_py spawn_and_relay_def python_world parse_world
        quiet_python_def tiny_parse_def collect_demo toString_world)
  note inst = missing_field_rejected [where req = no_type_request and fd = ?fd
      and e = "world quiet_python" and e' = "world quiet_python"
      and req' = start_round_request and r = "train_ok ''{}''"
      and fd' = "[(''action'', JStr ''start_round''), (''clientId'', JStr ''c1'')]"]
  have f: "formData start_round_request
      = Some [(''action'', JStr ''start_round''), (''clientId'', JStr ''c1'')]"
    by (simp add: start_round_request_def)
  from inst h have 1: "POST_infer (world quiet_python) no_type_request = (Some missing_fields, [])"
    by blast
  from inst t have 2: "status (train_ok ''{}'') = 200 \<or> status (train_ok ''{}'') = 500"
    by blast
  from inst f have 3: "\<exists>rest. snd (POST_train (world quiet_python) start_round_request)
         = Mkdir (path_join (world quiet_python) (cwd (world quiet_python)) ''temp'') # rest"
    by blast
  from h t 1 2 3 show ?thesis by blast
qed




text \<open>
  C3, the claim as stated fails for the training \<open>GET\<close>: a process that writes to
  standard error, prints \<open>{}\<close> and exits 0 gets the success envelope with status 200.
\<close>

theorem get_ignores_stderr_counterexample:
  "noisy_python [JStr ''/app/fl-backend/server/cli.py'', JStr ''--mode'', JStr ''status'']
     = Closed (Some 0) [''{}''] ''DeprecationWarning''
   \<and> GET_train (world noisy_python) =
     (Some \<lparr>status = 200, body = [(''success'', VBool True), (''status'', VDoc ''{}'')]\<rparr>,
      [Spawn [JStr ''/app/fl-backend/server/cli.py'', JStr ''--mode'', JStr ''status'']])"
  by (simp add: GET_train_def GET_try_def world_def path_join_world plain_join_def noisy_python_def
      tiny_parse_def collect_demo toString_world Let_def)

text \<open>
  C3, evaluated: standard-error output at the inference endpoint, exit code 1 at the two
  training handlers.
\<close>

theorem process_failure_relay_witness:
  "fst (POST_infer (world noisy_python) scan_request) = Some (failure ''Inference failed'')
   \<and> fst (POST_train (world failing_python) start_round_request)
     = Some (failure ''Training operation failed'')
   \<and> fst (GET_train (world failing_python)) = Some (failure ''Failed to get training status'')
   \<and> status (failure ''Inference failed'' :: string response) = 500"
proof -
  let ?n = "world noisy_python" and ?f = "world failing_python"
  let ?ia = "[JStr ''/app/fl-backend/server/inference.py'',
              JStr ''--image_path'', JStr ''/app/uploads/42_1700000000000_scan.dcm'',
              JStr ''--image_type'', JStr ''ct'', JStr ''--patient_id'', JStr ''42'',
              JStr ''--patient_name'', JStr ''Ann'']"
  let ?ga = "[JStr ''/app/fl-backend/server/cli.py'', JStr ''--mode'', JStr ''status'']"
  let ?pa = "[JStr ''/app/fl-backend/server/cli.py'', JStr ''--mode'', JStr ''start_round'',
              JStr ''--client_id'', JStr ''c1'']"
  have i: "Spawn ?ia \<in> set (snd (POST_infer ?n scan_request))"
    "python ?n ?ia = Closed (Some 0) [''{}''] ''DeprecationWarning''"
    by (simp_all add: eval_infer_scan_py spawn_and_relay_def python_world noisy_python_def)
  have p: "Spawn ?pa \<in> set (snd (POST_train ?f start_round_request))"
    "python ?f ?pa = Closed (Some 1) [] []"
    by (simp_all add: eval_train_start_py spawn_and_relay_def python_world failing_python_def)
  have g: "Spawn ?ga \<in> set (snd (GET_train ?f))" "python ?f ?ga = Closed (Some 1) [] []"
    by (simp_all add: GET_train_def GET_try_def world_def path_join_world plain_join_def failing_python_def
        Let_def)
  from i process_failure_relay [where e = ?n and req = scan_request and a = ?ia
      and code = "Some 0" and out = "[''{}'']" and err = "''DeprecationWarning''"
      and msg = "''Inference failed''"]
  have 1: "fst (POST_infer ?n scan_request) = Some (failure ''Inference failed'')"
    by simp
  from p g process_failure_relay [where e = ?f and req = start_round_request and a = ?pa
      and code = "Some 1" and out = "[]" and err = "[]" and msg = "''Inference failed''"]
  have 2: "fst (POST_train ?f start_round_request) = Some (failure ''Training operation failed'')"
    by simp
  from p g process_failure_relay [where e = ?f and req = start_round_request and a = ?ga
      and code = "Some 1" and out = "[]" and err = "[]" and msg = "''Inference failed''"]
  have 3: "fst (GET_train ?f) = Some (failure ''Failed to get training status'')"
    and 4: "status (failure ''Inference failed'' :: string response) = 500"
    by simp_all
  from 1 2 3 4 show ?thesis by simp
qed

text \<open>
  C4, the claim as stated fails: the success response carries a fourth field,
  \<open>imagePath\<close>, outside \<open>success\<close>, \<open>result\<close> and \<open>error\<close>.
\<close>

theorem infer_extra_field_counterexample:
  "fst (POST_infer (world quiet_python) scan_request) =
     Some \<lparr>status = 200, body = [(''success'', VBool True), (''result'', VDoc ''{}''),
        (''imagePath'', VStr ''42_1700000000000_scan.dcm'')]\<rparr>
   \<and> ''imagePath'' \<notin> {''success'', ''result'', ''error''}"
  by (simp add: eval_infer_scan)

text \<open>C4, evaluated at the response to the scan upload.\<close>

theorem infer_response_schema_witness:
  "fst (POST_infer (world quiet_python) scan_request) =
     Some \<lparr>status = 200, body = [(''success'', VBool True), (''result'', VDoc ''{}''),
        (''imagePath'', VStr ''42_1700000000000_scan.dcm'')]\<rparr>
   \<and> (\<exists>fd image_name buffer a chunks doc.
         formData scan_request = Some fd \<and> form_get fd ''image'' = JFile image_name buffer
         \<and> WriteFile (path_join (world quiet_python) (path_join (world quiet_python) (cwd (world quiet_python)) ''uploads'')
               (fileName (form_get fd ''patientId'') (now (world quiet_python)) image_name))
               buffer
             \<in> set (snd (POST_infer (world quiet_python) scan_request))
         \<and> Spawn a \<in> set (snd (POST_infer (world quiet_python) scan_request))
         \<and> python (world quiet_python) a = Closed (Some 0) chunks []
         \<and> json_parse (world quiet_python) (collect (world quiet_python) chunks) = Some doc
         \<and> [(''success'', VBool True), (''result'', VDoc ''{}''),
             (''imagePath'', VStr ''42_1700000000000_scan.dcm'')]
           = [(''success'', VBool True), (''result'', VDoc doc),
              (''imagePath'', VStr (fileName (form_get fd ''patientId'')
                  (now (world quiet_python)) image_name))])"
proof -
  let ?r = "\<lparr>status = 200, body = [(''success'', VBool True), (''result'', VDoc ''{}''),
        (''imagePath'', VStr ''42_1700000000000_scan.dcm'')]\<rparr>"
  have h: "fst (POST_infer (world quiet_python) scan_request) = Some ?r"
    by (simp add: eval_infer_scan)
  from h infer_response_schema [where e = "world quiet_python" and req = scan_request
      and r = ?r]
  show ?thesis by simp
qed

text \<open>C5, evaluated at the scan upload at time 1700000000000.\<close>

theorem persisted_file_name_witness:
  "fileName (JStr ''42'') 1700000000000 ''scan.dcm'' = ''42_'' @ show_nat 1700000000000 @ ''_scan.dcm''
   \<and> (\<exists>rest. snd (POST_infer (world quiet_python) scan_request) =
          Mkdir (path_join (world quiet_python) (cwd (world quiet_python)) ''uploads'')
          # WriteFile (path_join (world quiet_python) (path_join (world quiet_python) (cwd (world quiet_python)) ''uploads'')
                        (fileName (JStr ''42'') (now (world quiet_python)) ''scan.dcm'')) ''DICM''
          # rest)"
proof -
  let ?w = "world quiet_python"
  let ?fd = "[(''image'', JFile ''scan.dcm'' ''DICM''),
     (''type'', JStr ''ct''), (''patientName'', JStr ''Ann''), (''patientId'', JStr ''42'')]"
  have h: "formData scan_request = Some ?fd" "form_get ?fd ''image'' = JFile ''scan.dcm'' ''DICM''"
    "form_get ?fd ''type'' = JStr ''ct''" "form_get ?fd ''patientId'' = JStr ''42''"
    "mkdir ?w (path_join ?w (cwd ?w) ''uploads'') = None"
    by (simp_all add: scan_request_def form_get_def world_def)
  from h persisted_file_name [where t = 1700000000000 and req = scan_request and fd = ?fd
      and buf = "''DICM''" and e = ?w]
  show ?thesis by blast
qed

end
